theory Spec2Isabelle
  imports Main "HOL-Library.Char_ord" "HOL-Library.List_Lexorder"
begin

section \<open>The script \<open>check/pytest-changed-files\<close>\<close>

text \<open>
  The program is a bash script. Its own logic (argument handling, the choice of the
  revision, the text pipeline over the names printed by \<open>git diff\<close>, the array of test
  files, the exit status) is translated below, statement by statement. The external
  programs it calls (\<open>git\<close>, the file system seen by \<open>perl -e\<close>, \<open>pytest\<close>) and the
  process environment are the fields of a record \<open>world\<close>; every call of an external
  program, with its argument words, is recorded in a trace of events, in the order in
  which the script performs it.

  Two opening \<open>cd\<close> commands place the working directory at the repository root; paths
  are read relative to it and the commands are not part of the trace.
  \<open>source dev_tools/pypath\<close> is a file outside the script: it is recorded as an event and
  taken to leave the positional data of the script and the seed variable untouched.
\<close>

subsection \<open>Shell expansion\<close>

text \<open>
  \<open>rest=$@\<close> and \<open>rest=${@:2}\<close> are assignments: the positional parameters are joined by
  single spaces into one string.
\<close>

fun join_args :: "string list \<Rightarrow> string" where
  "join_args [] = []"
| "join_args [a] = a"
| "join_args (a # b # bs) = a @ CHR '' '' # join_args (b # bs)"

text \<open>
  An unquoted expansion (\<open>$1\<close> in \<open>git cat-file -t $1\<close>, \<open>${rev}\<close> in the first
  \<open>git diff\<close>, \<open>${rest}\<close> in the \<open>pytest\<close> line) is split into words at runs of the
  default \<open>IFS\<close> characters space, tab and newline. The \<open>IFS=$'\n'\<close> in front of \<open>read\<close>
  holds for that command only.
\<close>

definition ifs_white :: "char \<Rightarrow> bool" where
  "ifs_white c \<longleftrightarrow> c = CHR '' '' \<or> c = CHR 0x09 \<or> c = CHR 0x0A"

fun split_from :: "string \<Rightarrow> string \<Rightarrow> string list" where
  "split_from w [] = (if w = [] then [] else [w])"
| "split_from w (c # cs) =
     (if ifs_white c then (if w = [] then split_from [] cs else w # split_from [] cs)
      else split_from (w @ [c]) cs)"

definition split_words :: "string \<Rightarrow> string list" where
  "split_words s = split_from [] s"

text \<open>
  After splitting, a word that holds one of \<open>*\<close>, \<open>?\<close>, \<open>[\<close> is a pattern and undergoes
  pathname expansion, whose result depends on the directory contents (field \<open>glob\<close>
  of the world: the words bash puts in place of the pattern). Any other word stays.
\<close>

definition is_pattern :: "string \<Rightarrow> bool" where
  "is_pattern w \<longleftrightarrow> list_ex (\<lambda>c. c = CHR ''*'' \<or> c = CHR ''?'' \<or> c = CHR ''['') w"

subsection \<open>The world outside the script\<close>

record world =
  glob :: "string \<Rightarrow> string list"
  cat_file_t :: "string list \<Rightarrow> string"
  diff_names :: "string list \<Rightarrow> string list"
  file_exists :: "string \<Rightarrow> bool"
  seed_var :: "string option"
  log_ct :: string
  pytest_rc :: "string \<Rightarrow> string list \<Rightarrow> nat"
  unicode_bytes :: "nat \<Rightarrow> string"

text \<open>
  \<^item> \<open>cat_file_t w ws\<close>: what \<open>$(git cat-file -t ws 2> /dev/null)\<close> yields, the standard
    output without its trailing newline, for the argument words \<open>ws\<close>;
  \<^item> \<open>diff_names w ws\<close>: the lines printed by \<open>git diff --name-only ws --\<close>, one per
    changed path;
  \<^item> \<open>file_exists w p\<close>: the result of perl's \<open>-e\<close> test on \<open>p\<close>;
  \<^item> \<open>seed_var w\<close>: the value of \<open>CIRQ_TESTING_RANDOM_SEED\<close> in the environment of the
    script, \<open>None\<close> when it is unset;
  \<^item> \<open>log_ct w\<close>: what \<open>$(git log -1 --pretty="%ct")\<close> yields, the time stamp of the
    latest commit;
  \<^item> \<open>pytest_rc w seed argv\<close>: the exit status of \<open>pytest argv\<close> run with the seed
    variable exported as \<open>seed\<close>;
  \<^item> \<open>unicode_bytes w v\<close>: the bytes that \<open>echo -e\<close> writes, in the locale of the run,
    for an escape \<open>\u\<close> or \<open>\U\<close> naming the code point \<open>v\<close> above 127.
\<close>

definition pathname_expand :: "world \<Rightarrow> string \<Rightarrow> string list" where
  "pathname_expand w x = (if is_pattern x then glob w x else [x])"

definition unquoted :: "world \<Rightarrow> string \<Rightarrow> string list" where
  "unquoted w s = concat (map (pathname_expand w) (split_words s))"

subsection \<open>Events\<close>

datatype event =
    CatFile "string list"
  | EchoErr bool string
  | Diff "string list"
  | SourcePypath
  | GitLog
  | Export string
  | Pytest "string list"

text \<open>
  \<open>CatFile ws\<close> is \<open>git cat-file -t ws\<close>; \<open>EchoErr e s\<close> is \<open>echo s >&2\<close>, with the
  option \<open>-e\<close> when \<open>e\<close> holds (\<open>s\<close> is the argument of \<open>echo\<close>, before \<open>echo -e\<close>
  reads its backslash escapes); \<open>Diff ws\<close> is \<open>git diff --name-only ws --\<close>; \<open>GitLog\<close> is
  \<open>git log -1 --pretty="%ct"\<close>; \<open>Export s\<close> is the \<open>export\<close> of the seed variable with
  value \<open>s\<close>; \<open>Pytest argv\<close> is the final call.
\<close>

record outcome =
  trace :: "event list"
  exit_code :: nat

subsection \<open>What \<open>echo\<close> writes\<close>

definition bsl :: char where "bsl = CHR 0x5C"
definition apo :: char where "apo = CHR 0x27"
definition esc :: char where "esc = CHR 0x1B"
definition nl :: char where "nl = CHR 0x0A"

text \<open>
  \<open>echo -e\<close> is the builtin of bash. It reads its argument from left to right and
  replaces the backslash escapes: \<open>\a \b \e \E \f \n \r \t \v \\\<close> stand for one byte each,
  \<open>\0\<close> with up to three octal digits and \<open>\x\<close> with one or two hexadecimal digits
  for the byte of that value, \<open>\u\<close> and \<open>\U\<close> with up to four and eight hexadecimal
  digits for a code point, and \<open>\c\<close> ends the output at once, the closing newline
  included. A backslash in front of anything else, or at the end, or \<open>\x\<close>, \<open>\u\<close>, \<open>\U\<close>
  without a digit, stays as it is written. The state says which escape is being read.
\<close>

definition oct_digit :: "char \<Rightarrow> nat option" where
  "oct_digit c =
     (let n = (of_char c :: nat) in if 48 \<le> n \<and> n \<le> 55 then Some (n - 48) else None)"

definition hex_digit :: "char \<Rightarrow> nat option" where
  "hex_digit c =
     (let n = (of_char c :: nat) in
      if 48 \<le> n \<and> n \<le> 57 then Some (n - 48)
      else if 97 \<le> n \<and> n \<le> 102 then Some (n - 87)
      else if 65 \<le> n \<and> n \<le> 70 then Some (n - 55)
      else None)"

datatype escape = Plain | Backslash | Octal nat nat | Hex nat nat | Unicode char nat nat

text \<open>
  \<open>Octal v k\<close>, \<open>Hex v k\<close> and \<open>Unicode l v k\<close> hold the value \<open>v\<close> read so far and the
  number \<open>k\<close> of digits that may still follow; \<open>l\<close> is the letter \<open>u\<close> or \<open>U\<close>.
\<close>

definition code_point :: "world \<Rightarrow> nat \<Rightarrow> string" where
  "code_point w v = (if v < 128 then [char_of v] else unicode_bytes w v)"

fun pending :: "world \<Rightarrow> escape \<Rightarrow> string" where
  "pending w Plain = []"
| "pending w Backslash = [bsl]"
| "pending w (Octal v k) = [char_of v]"
| "pending w (Hex v k) = (if k = 2 then [bsl, CHR ''x''] else [char_of v])"
| "pending w (Unicode l v k) =
     (if k = (if l = CHR ''u'' then 4 else 8) then [bsl, l] else code_point w v)"

definition simple_escape :: "char \<Rightarrow> string" where
  "simple_escape c =
     (if c = CHR ''a'' then [CHR 0x07]
      else if c = CHR ''b'' then [CHR 0x08]
      else if c = CHR ''e'' \<or> c = CHR ''E'' then [esc]
      else if c = CHR ''f'' then [CHR 0x0C]
      else if c = CHR ''n'' then [nl]
      else if c = CHR ''r'' then [CHR 0x0D]
      else if c = CHR ''t'' then [CHR 0x09]
      else if c = CHR ''v'' then [CHR 0x0B]
      else if c = bsl then [bsl]
      else [bsl, c])"

fun echo_e_from :: "world \<Rightarrow> escape \<Rightarrow> string \<Rightarrow> string" where
  "echo_e_from w st [] = pending w st @ [nl]"
| "echo_e_from w Plain (c # cs) =
     (if c = bsl then echo_e_from w Backslash cs else c # echo_e_from w Plain cs)"
| "echo_e_from w Backslash (c # cs) =
     (if c = CHR ''c'' then []
      else if c = CHR ''0'' then echo_e_from w (Octal 0 3) cs
      else if c = CHR ''x'' then echo_e_from w (Hex 0 2) cs
      else if c = CHR ''u'' then echo_e_from w (Unicode c 0 4) cs
      else if c = CHR ''U'' then echo_e_from w (Unicode c 0 8) cs
      else simple_escape c @ echo_e_from w Plain cs)"
| "echo_e_from w (Octal v k) (c # cs) =
     (if 0 < k \<and> oct_digit c \<noteq> None
      then echo_e_from w (Octal (v * 8 + the (oct_digit c)) (k - 1)) cs
      else pending w (Octal v k)
           @ (if c = bsl then echo_e_from w Backslash cs else c # echo_e_from w Plain cs))"
| "echo_e_from w (Hex v k) (c # cs) =
     (if 0 < k \<and> hex_digit c \<noteq> None
      then echo_e_from w (Hex (v * 16 + the (hex_digit c)) (k - 1)) cs
      else pending w (Hex v k)
           @ (if c = bsl then echo_e_from w Backslash cs else c # echo_e_from w Plain cs))"
| "echo_e_from w (Unicode l v k) (c # cs) =
     (if 0 < k \<and> hex_digit c \<noteq> None
      then echo_e_from w (Unicode l (v * 16 + the (hex_digit c)) (k - 1)) cs
      else pending w (Unicode l v k)
           @ (if c = bsl then echo_e_from w Backslash cs else c # echo_e_from w Plain cs))"

definition echo_e :: "world \<Rightarrow> string \<Rightarrow> string" where
  "echo_e w s = echo_e_from w Plain s"

text \<open>
  What the \<open>echo\<close> commands of a trace write to standard error, in order: \<open>echo -e\<close> as
  above, \<open>echo\<close> without the option its argument and a newline. (\<open>git diff\<close> and
  \<open>pytest\<close> may write there as well; \<open>git cat-file\<close> has its messages sent to
  \<open>/dev/null\<close>.)
\<close>

fun stderr_of :: "world \<Rightarrow> event list \<Rightarrow> string" where
  "stderr_of w [] = []"
| "stderr_of w (EchoErr True s # es) = echo_e w s @ stderr_of w es"
| "stderr_of w (EchoErr False s # es) = s @ nl # stderr_of w es"
| "stderr_of w (e # es) = stderr_of w es"

subsection \<open>Figure out which branch to compare against\<close>

definition red :: "string \<Rightarrow> string" where
  "red s = bsl # ''033[31m'' @ s @ bsl # ''033[0m''"

definition no_revision_msg :: "string \<Rightarrow> string" where
  "no_revision_msg a = red (''No revision '' @ apo # a @ apo # ''.'')"

definition no_default_msg :: string where
  "no_default_msg = red (''No default revision found to compare against. Argument #1 must be what to diff against (e.g. ''
     @ apo # ''origin/master'' @ apo # '' or '' @ apo # ''HEAD~1'' @ apo # '').'')"

datatype failure = NoRevision string | NoDefault

text \<open>
  \<open>[ ! -z "$1" ] && [[ $1 != -* ]]\<close>: the first argument is there, is not the empty
  string and does not begin with \<open>-\<close>.
\<close>

definition explicit_rev :: "string list \<Rightarrow> bool" where
  "explicit_rev args = (case args of [] \<Rightarrow> False | a # _ \<Rightarrow> a \<noteq> [] \<and> hd a \<noteq> CHR ''-'')"

definition is_commit :: "world \<Rightarrow> string list \<Rightarrow> bool" where
  "is_commit w ws \<longleftrightarrow> cat_file_t w ws = ''commit''"

text \<open>
  The result is the trace of the probes and either the failure or the pair of \<open>rev\<close>
  and \<open>rest\<close>.
\<close>

definition resolve :: "world \<Rightarrow> string list \<Rightarrow> event list \<times> (failure + string \<times> string)" where
  "resolve w args =
     (if explicit_rev args then
        (if \<not> is_commit w (unquoted w (hd args)) then
           ([CatFile (unquoted w (hd args)), EchoErr True (no_revision_msg (hd args))],
            Inl (NoRevision (hd args)))
         else ([CatFile (unquoted w (hd args))], Inr (hd args, join_args (tl args))))
      else if is_commit w [''upstream/master''] then
        ([CatFile [''upstream/master'']], Inr (''upstream/master'', join_args args))
      else if is_commit w [''origin/master''] then
        ([CatFile [''upstream/master''], CatFile [''origin/master'']],
         Inr (''origin/master'', join_args args))
      else if is_commit w [''master''] then
        ([CatFile [''upstream/master''], CatFile [''origin/master''], CatFile [''master'']],
         Inr (''master'', join_args args))
      else
        ([CatFile [''upstream/master''], CatFile [''origin/master''], CatFile [''master''],
          EchoErr True no_default_msg],
         Inl NoDefault))"

subsection \<open>Get the \<open>_test\<close> version of changed python files\<close>

definition ends_with :: "string \<Rightarrow> string \<Rightarrow> bool" where
  "ends_with sfx s \<longleftrightarrow> length sfx \<le> length s \<and> drop (length s - length sfx) s = sfx"

text \<open>\<open>sed -e "s/old$/new/"\<close> for a literal \<open>old\<close>: a line ending in \<open>old\<close> gets \<open>new\<close> there.\<close>

definition sed_end :: "string \<Rightarrow> string \<Rightarrow> string \<Rightarrow> string" where
  "sed_end old new s = (if ends_with old s then take (length s - length old) s @ new else s)"

definition to_test :: "string \<Rightarrow> string" where
  "to_test s = sed_end ''_test_test.py'' ''_test.py'' (sed_end ''.py'' ''_test.py'' s)"

text \<open>
  The pipeline \<open>grep | sed | sed | perl | sort | uniq\<close> over the lines of the diff.
  \<open>sort\<close> is taken in the byte order of the C locale; \<open>uniq\<close> drops a line equal to the
  one before it. \<open>read -r -d '' -a changed\<close> with \<open>IFS=$'\n'\<close> stores the lines, none of
  them empty, as the elements of the array.
\<close>

definition derive :: "world \<Rightarrow> string list \<Rightarrow> string list" where
  "derive w ls =
     remdups_adj (sort (filter (file_exists w) (map to_test (filter (ends_with ''.py'') ls))))"

definition global_test :: string where
  "global_test = ''cirq-core/cirq/protocols/json_serialization_test.py''"

definition init_touched :: "string list \<Rightarrow> bool" where
  "init_touched ls = list_ex (ends_with ''__init__.py'') ls"

text \<open>
  The array \<open>changed\<close> for the revision \<open>rv\<close> (the script's \<open>rev\<close>): the first \<open>git diff\<close> has \<open>${rev}\<close> unquoted, the second one, in
  the condition of the \<open>if\<close>, has it quoted.
\<close>

definition changed :: "world \<Rightarrow> string \<Rightarrow> string list" where
  "changed w rv =
     (if init_touched (diff_names w [rv])
      then derive w (diff_names w (unquoted w rv)) @ [global_test]
      else derive w (diff_names w (unquoted w rv)))"

subsection \<open>Run it\<close>

function dec :: "nat \<Rightarrow> string" where
  "dec n = (if n < 10 then [char_of (48 + n)] else dec (n div 10) @ [char_of (48 + n mod 10)])"
  by pat_completeness auto
termination
  by (relation "measure id") auto

definition comparing_msg :: "string \<Rightarrow> string" where
  "comparing_msg r = ''Comparing against revision '' @ apo # r @ apo # ''.''"

definition found_msg :: "nat \<Rightarrow> string" where
  "found_msg n = ''Found '' @ dec n @ '' test files associated with changes.''"

text \<open>\<open>: ${CIRQ_TESTING_RANDOM_SEED=$(git log -1 --pretty="%ct")}\<close> assigns only when the
  variable is unset, and only then runs \<open>git log\<close>.\<close>

definition seed_value :: "world \<Rightarrow> string" where
  "seed_value w = (case seed_var w of Some s \<Rightarrow> s | None \<Rightarrow> log_ct w)"

definition seed_events :: "world \<Rightarrow> event list" where
  "seed_events w = (case seed_var w of Some s \<Rightarrow> [Export s] | None \<Rightarrow> [GitLog, Export (log_ct w)])"

definition pytest_argv :: "world \<Rightarrow> string \<Rightarrow> string list \<Rightarrow> string list" where
  "pytest_argv w rest ch = unquoted w rest @ ch"

definition main :: "world \<Rightarrow> string list \<Rightarrow> outcome" where
  "main w args =
     (case resolve w args of
        (probes, Inl f) \<Rightarrow> \<lparr>trace = probes, exit_code = 1\<rparr>
      | (probes, Inr (rv, rest)) \<Rightarrow>
          (let ch = changed w rv;
               found = probes @ [EchoErr False (comparing_msg rv),
                                 Diff (unquoted w rv), Diff [rv],
                                 EchoErr False (found_msg (length ch))]
           in if length ch = 0 then \<lparr>trace = found, exit_code = 0\<rparr>
              else \<lparr>trace = found @ [SourcePypath] @ seed_events w
                             @ [Pytest (pytest_argv w rest ch)],
                    exit_code = pytest_rc w (seed_value w) (pytest_argv w rest ch)\<rparr>))"

subsection \<open>Notions used to state the properties\<close>

text \<open>
  A plain word is not empty and holds neither an \<open>IFS\<close> character nor a pattern
  character: the shell leaves it as it is when it expands it unquoted.
\<close>

definition plain :: "string \<Rightarrow> bool" where
  "plain a \<longleftrightarrow> a \<noteq> [] \<and> \<not> list_ex ifs_white a \<and> \<not> is_pattern a"


text \<open>A text mentions a word when the word occurs in it as it is.\<close>

fun mentions :: "string \<Rightarrow> string \<Rightarrow> bool" where
  "mentions [] a = (a = [])"
| "mentions (c # cs) a = (take (length a) (c # cs) = a \<or> mentions cs a)"

definition default_revs :: "string list" where
  "default_revs = [''upstream/master'', ''origin/master'', ''master'']"

text \<open>
  The first default candidate that resolves, and the candidates that get probed until
  then, written as a search through the list of candidates.
\<close>

definition first_resolving :: "world \<Rightarrow> string option" where
  "first_resolving w = find (\<lambda>r. is_commit w [r]) default_revs"

definition probed :: "world \<Rightarrow> string list" where
  "probed w = takeWhile (\<lambda>r. \<not> is_commit w [r]) default_revs
              @ take 1 (dropWhile (\<lambda>r. \<not> is_commit w [r]) default_revs)"

fun is_diff :: "event \<Rightarrow> bool" where
  "is_diff (Diff ws) = True"
| "is_diff e = False"

fun is_pytest :: "event \<Rightarrow> bool" where
  "is_pytest (Pytest argv) = True"
| "is_pytest e = False"

fun is_probe :: "event \<Rightarrow> bool" where
  "is_probe (CatFile ws) = True"
| "is_probe e = False"

fun exported :: "event list \<Rightarrow> string list" where
  "exported [] = []"
| "exported (Export s # es) = s # exported es"
| "exported (e # es) = exported es"

subsection \<open>Example worlds\<close>

text \<open>A revision argument with a backslash in it: the five characters \<open>a\cb\<close>.\<close>

definition cut_rev :: string where
  "cut_rev = ''a'' @ bsl # ''cb''"

text \<open>
  A repository with the commits \<open>HEAD~1\<close> and \<open>origin/master\<close>, where the only test file
  on disk is \<open>pkg/module_test.py\<close>; \<open>pytest\<close> answers with the number of its arguments.
\<close>

definition w_ex :: world where
  "w_ex = \<lparr>glob = (\<lambda>p. [p]),
           cat_file_t = (\<lambda>ws. if ws = [''HEAD~1''] \<or> ws = [''origin/master'']
                               then ''commit'' else []),
           diff_names = (\<lambda>ws. if ws = [''HEAD~1'']
                               then [''pkg/module.py'', ''pkg/lonely.py'', ''pkg/module_test.py'',
                                     ''a/__init__.py'', ''b/__init__.py'', ''README.md'']
                               else if ws = [''origin/master''] then [''pkg/module.py'']
                               else []),
           file_exists = (\<lambda>p. p = ''pkg/module_test.py''),
           seed_var = None,
           log_ct = ''1700000000'',
           pytest_rc = (\<lambda>seed argv. length argv),
           unicode_bytes = (\<lambda>v. [])\<rparr>"

text \<open>The same repository with the seed variable set by the caller.\<close>

definition w_seeded :: world where
  "w_seeded = w_ex\<lparr>seed_var := Some ''42''\<rparr>"

text \<open>
  A repository whose only default branch is \<open>master\<close>, where an initializer and
  \<open>json_serialization.py\<close> have changed and the serialization test is on disk.
\<close>

definition w_json :: world where
  "w_json = \<lparr>glob = (\<lambda>p. [p]),
             cat_file_t = (\<lambda>ws. if ws = [''master''] then ''commit'' else []),
             diff_names = (\<lambda>ws. if ws = [''master'']
                                 then [''cirq-core/cirq/__init__.py'',
                                       ''cirq-core/cirq/protocols/json_serialization.py'']
                                 else []),
             file_exists = (\<lambda>p. p = ''cirq-core/cirq/protocols/json_serialization_test.py''),
             seed_var = None,
             log_ct = ''1700000000'',
             pytest_rc = (\<lambda>seed argv. 0),
           unicode_bytes = (\<lambda>v. [])\<rparr>"


text \<open>A repository in which no name resolves to a commit.\<close>

definition w_bare :: world where
  "w_bare = \<lparr>glob = (\<lambda>p. [p]),
             cat_file_t = (\<lambda>ws. []),
             diff_names = (\<lambda>ws. []),
             file_exists = (\<lambda>p. False),
             seed_var = None,
             log_ct = [],
             pytest_rc = (\<lambda>seed argv. 5),
           unicode_bytes = (\<lambda>v. [])\<rparr>"

section \<open>Properties\<close>

subsection \<open>Suffixes and the two \<open>sed\<close> substitutions\<close>

lemma ends_with_iff: "ends_with sfx s \<longleftrightarrow> (\<exists>m. s = m @ sfx)"
proof
  assume "ends_with sfx s"
  then have "s = take (length s - length sfx) s @ sfx"
    by (metis ends_with_def append_take_drop_id)
  then show "\<exists>m. s = m @ sfx" ..
next
  assume "\<exists>m. s = m @ sfx"
  then show "ends_with sfx s" by (auto simp: ends_with_def)
qed

lemma ends_with_append [simp]: "ends_with sfx (m @ sfx)"
  by (simp add: ends_with_def)

lemma ends_with_append_cancel: "ends_with (a @ t) (m @ t) \<longleftrightarrow> ends_with a m"
  by (auto simp: ends_with_iff)

lemma sed_end_append [simp]: "sed_end old new (m @ old) = m @ new"
  by (simp add: sed_end_def)

lemma sed_end_other: "\<not> ends_with old s \<Longrightarrow> sed_end old new s = s"
  by (simp add: sed_end_def)

lemma to_test_of_test: "to_test (m @ ''_test.py'') = m @ ''_test.py''"
proof -
  have "sed_end ''.py'' ''_test.py'' ((m @ ''_test'') @ ''.py'') = (m @ ''_test'') @ ''_test.py''"
    by (rule sed_end_append)
  then have "sed_end ''.py'' ''_test.py'' (m @ ''_test.py'') = m @ ''_test_test.py''"
    by simp
  then show ?thesis
    unfolding to_test_def by (simp only: sed_end_append)
qed

lemma to_test_of_source:
  assumes "\<not> ends_with ''_test'' m"
  shows "to_test (m @ ''.py'') = m @ ''_test.py''"
proof -
  have "ends_with (''_test'' @ ''_test.py'') (m @ ''_test.py'') \<longleftrightarrow> ends_with ''_test'' m"
    by (rule ends_with_append_cancel)
  with assms have n: "\<not> ends_with ''_test_test.py'' (m @ ''_test.py'')" by simp
  have "to_test (m @ ''.py'') = sed_end ''_test_test.py'' ''_test.py'' (m @ ''_test.py'')"
    unfolding to_test_def by (simp only: sed_end_append)
  also have "\<dots> = m @ ''_test.py''" using n by (rule sed_end_other)
  finally show ?thesis .
qed

lemma to_test_not_py:
  assumes "\<not> ends_with ''.py'' s"
  shows "to_test s = s"
proof -
  have "\<not> ends_with ''_test_test.py'' s"
  proof
    assume "ends_with ''_test_test.py'' s"
    then obtain m where "s = m @ ''_test_test.py''" by (auto simp: ends_with_iff)
    then have "s = (m @ ''_test_test'') @ ''.py''" by simp
    then have "ends_with ''.py'' s" by (simp only: ends_with_append)
    with assms show False ..
  qed
  with assms show ?thesis by (simp add: to_test_def sed_end_other)
qed

lemma to_test_shape:
  assumes "ends_with ''.py'' s"
  shows "\<exists>m. to_test s = m @ ''_test.py''"
proof -
  from assms obtain m where s: "s = m @ ''.py''" by (auto simp: ends_with_iff)
  show ?thesis
  proof (cases "ends_with ''_test'' m")
    case True
    then obtain k where "m = k @ ''_test''" by (auto simp: ends_with_iff)
    with s have "s = k @ ''_test.py''" by simp
    then show ?thesis using to_test_of_test by blast
  next
    case False
    then show ?thesis using to_test_of_source s by blast
  qed
qed

lemma to_test_twice: "to_test (to_test s) = to_test s"
proof (cases "ends_with ''.py'' s")
  case True
  then obtain m where "to_test s = m @ ''_test.py''" using to_test_shape by blast
  then show ?thesis by (simp only: to_test_of_test)
next
  case False
  then show ?thesis by (simp add: to_test_not_py)
qed

subsection \<open>The derived test files\<close>

lemma sorted_distinct_remdups_adj:
  "sorted (xs :: 'a::linorder list) \<Longrightarrow> distinct (remdups_adj xs)"
proof (induction xs rule: remdups_adj.induct)
  case (3 x y xs)
  show ?case
  proof (cases "x = y")
    case True
    with 3 show ?thesis by simp
  next
    case False
    from "3.prems" have "\<forall>z\<in>set (y # xs). x \<le> z" and "sorted (y # xs)" by auto
    with False have "x \<notin> set (y # xs)" using "3.prems" by auto
    with False 3 show ?thesis by simp
  qed
qed simp_all

lemma derive_set:
  "set (derive w ls) = {t. \<exists>p\<in>set ls. ends_with ''.py'' p \<and> t = to_test p \<and> file_exists w t}"
  unfolding derive_def by (auto simp: remdups_adj_set)

lemma derive_sorted: "sorted (derive w ls)"
  unfolding derive_def by (simp add: sorted_remdups_adj)

lemma derive_distinct: "distinct (derive w ls)"
  unfolding derive_def by (simp add: sorted_distinct_remdups_adj)

lemma derive_single:
  "derive w [p] = (if ends_with ''.py'' p \<and> file_exists w (to_test p) then [to_test p] else [])"
  unfolding derive_def by simp

text \<open>
  C1. The derived test files are the images, under the renaming to the \<open>_test.py\<close> name,
  of the changed paths that end in \<open>.py\<close>, kept when that file exists; a changed file
  without an existing test adds nothing and nothing fails (\<open>derive\<close> is a total
  function). The sequence is sorted and has no duplicates. For a source file \<open>m.py\<close>
  (one whose name does not end in \<open>_test.py\<close> already) the renaming gives \<open>m_test.py\<close>,
  and when \<open>m.py\<close> alone has changed the derived files are exactly \<open>m_test.py\<close> if it
  exists; so it is for \<open>pkg/module.py\<close>.
\<close>

theorem derive_existing_tests:
  "set (derive w ls) = {t. \<exists>p\<in>set ls. ends_with ''.py'' p \<and> t = to_test p \<and> file_exists w t}
   \<and> sorted (derive w ls) \<and> distinct (derive w ls)
   \<and> (\<not> ends_with ''_test'' m \<longrightarrow>
        to_test (m @ ''.py'') = m @ ''_test.py''
        \<and> derive w [m @ ''.py'']
            = (if file_exists w (m @ ''_test.py'') then [m @ ''_test.py''] else []))
   \<and> (file_exists w ''pkg/module_test.py'' \<longrightarrow>
        derive w [''pkg/module.py''] = [''pkg/module_test.py''])"
proof -
  have single: "derive w [k @ ''.py'']
                  = (if file_exists w (k @ ''_test.py'') then [k @ ''_test.py''] else [])"
    if "\<not> ends_with ''_test'' k" for k
    using to_test_of_source [OF that] by (simp only: derive_single ends_with_append simp_thms)
  have "\<not> ends_with ''_test'' ''pkg/module''" by (simp add: ends_with_def)
  from single [OF this]
  have "file_exists w ''pkg/module_test.py'' \<longrightarrow>
          derive w [''pkg/module.py''] = [''pkg/module_test.py'']"
    by simp
  with single to_test_of_source derive_set derive_sorted derive_distinct show ?thesis
    by blast
qed

theorem derive_existing_tests_witness:
  "\<not> ends_with ''_test'' ''pkg/module'' \<and> file_exists w_ex ''pkg/module_test.py''
   \<and> derive w_ex [''pkg/module.py''] = [''pkg/module_test.py'']
   \<and> derive w_ex [''pkg/lonely.py''] = []
   \<and> derive w_ex (diff_names w_ex [''HEAD~1'']) = [''pkg/module_test.py'']"
  using derive_existing_tests [of w_ex "[]" "''pkg/module''"]
    derive_existing_tests [of w_ex "[]" "''pkg/lonely''"]
  by (simp add: w_ex_def ends_with_def derive_def to_test_def sed_end_def)

lemma to_test_ends_py: "ends_with ''.py'' p \<Longrightarrow> ends_with ''.py'' (to_test p)"
proof -
  assume "ends_with ''.py'' p"
  then obtain m where "to_test p = m @ ''_test.py''" using to_test_shape by blast
  then have "to_test p = (m @ ''_test'') @ ''.py''" by simp
  then show ?thesis by (simp only: ends_with_append)
qed

lemma derive_twice: "derive w (derive w ls) = derive w ls"
proof -
  let ?d = "derive w ls"
  have el: "ends_with ''.py'' t \<and> to_test t = t \<and> file_exists w t" if "t \<in> set ?d" for t
  proof -
    from that obtain p where p: "ends_with ''.py'' p" "t = to_test p" "file_exists w t"
      by (auto simp: derive_set)
    then show ?thesis by (simp add: to_test_ends_py to_test_twice)
  qed
  then have "filter (ends_with ''.py'') ?d = ?d" by (simp add: filter_id_conv)
  moreover from el have "map to_test ?d = ?d" by (simp add: map_idI)
  moreover from el have "filter (file_exists w) ?d = ?d" by (simp add: filter_id_conv)
  moreover have "sort ?d = ?d" using derive_sorted by (simp add: sort_key_id_if_sorted)
  moreover have "remdups_adj ?d = ?d" using derive_distinct by (simp add: remdups_adj_distinct)
  ultimately have "remdups_adj (sort (filter (file_exists w) (map to_test (filter (ends_with ''.py'') ?d)))) = ?d"
    by simp
  then show ?thesis by (subst derive_def)
qed

text \<open>
  C3. Renaming a path that already ends in \<open>_test.py\<close> gives the path itself, not the
  name with the doubled \<open>_test_test.py\<close> ending; renaming twice is renaming once; and
  deriving the test files of the derived test files gives these again.
\<close>

theorem to_test_idempotent:
  "to_test (m @ ''_test.py'') = m @ ''_test.py''
   \<and> to_test (m @ ''_test.py'') \<noteq> m @ ''_test_test.py''
   \<and> to_test (to_test s) = to_test s
   \<and> derive w (derive w ls) = derive w ls"
  by (simp add: to_test_of_test to_test_twice derive_twice)

theorem to_test_idempotent_witness:
  "to_test ''pkg/module_test.py'' = ''pkg/module_test.py''
   \<and> to_test (to_test ''pkg/module.py'') = ''pkg/module_test.py''"
  using to_test_idempotent [of "''pkg/module''" "''pkg/module.py''"]
  by (simp add: to_test_def sed_end_def ends_with_def)

subsection \<open>Unquoted expansion of plain words\<close>

lemma split_from_word:
  "\<not> list_ex ifs_white a \<Longrightarrow> split_from acc (a @ cs) = split_from (acc @ a) cs"
  by (induction a arbitrary: acc) simp_all

lemma split_words_join:
  "list_all (\<lambda>a. a \<noteq> [] \<and> \<not> list_ex ifs_white a) args \<Longrightarrow> split_words (join_args args) = args"
proof (induction args rule: join_args.induct)
  case 1
  show ?case by (simp add: split_words_def)
next
  case (2 a)
  then have "split_from [] (a @ []) = split_from ([] @ a) []"
    by (intro split_from_word) simp
  with 2 show ?case by (simp add: split_words_def)
next
  case (3 a b bs)
  then have a: "a \<noteq> []" "\<not> list_ex ifs_white a" by simp_all
  have "split_from [] (a @ CHR '' '' # join_args (b # bs))
          = split_from ([] @ a) (CHR '' '' # join_args (b # bs))"
    using a(2) by (rule split_from_word)
  also have "\<dots> = a # split_from [] (join_args (b # bs))"
    using a(1) by (simp add: ifs_white_def)
  finally show ?case using 3 by (simp add: split_words_def)
qed

lemma unquoted_join_plain:
  assumes "list_all plain args"
  shows "unquoted w (join_args args) = args"
proof -
  from assms have "list_all (\<lambda>a. a \<noteq> [] \<and> \<not> list_ex ifs_white a) args"
    by (simp add: list_all_iff plain_def)
  then have "split_words (join_args args) = args" by (rule split_words_join)
  moreover from assms have "concat (map (pathname_expand w) args) = args"
    by (induction args) (simp_all add: pathname_expand_def plain_def)
  ultimately show ?thesis by (simp add: unquoted_def)
qed

lemma unquoted_plain: "plain s \<Longrightarrow> unquoted w s = [s]"
  using unquoted_join_plain [of "[s]" w] by simp

lemma plain_default_revs: "r \<in> set default_revs \<Longrightarrow> plain r"
  by (auto simp: default_revs_def plain_def ifs_white_def is_pattern_def)

subsection \<open>The two ways out of the revision resolution\<close>

lemma main_failed:
  "resolve w args = (probes, Inl f) \<Longrightarrow> main w args = \<lparr>trace = probes, exit_code = 1\<rparr>"
  by (simp add: main_def)

lemma main_resolved:
  "resolve w args = (probes, Inr (rv, rest)) \<Longrightarrow>
   main w args =
     (if changed w rv = []
      then \<lparr>trace = probes @ [EchoErr False (comparing_msg rv), Diff (unquoted w rv), Diff [rv],
                               EchoErr False (found_msg 0)],
            exit_code = 0\<rparr>
      else \<lparr>trace = probes @ [EchoErr False (comparing_msg rv), Diff (unquoted w rv), Diff [rv],
                               EchoErr False (found_msg (length (changed w rv))), SourcePypath]
                      @ seed_events w @ [Pytest (unquoted w rest @ changed w rv)],
            exit_code = pytest_rc w (seed_value w) (unquoted w rest @ changed w rv)\<rparr>)"
  by (simp add: main_def Let_def pytest_argv_def)

lemma resolve_explicit_bad:
  "explicit_rev args \<Longrightarrow> \<not> is_commit w (unquoted w (hd args)) \<Longrightarrow>
   resolve w args = ([CatFile (unquoted w (hd args)), EchoErr True (no_revision_msg (hd args))],
                     Inl (NoRevision (hd args)))"
  by (simp add: resolve_def)

lemma resolve_explicit_good:
  "explicit_rev args \<Longrightarrow> is_commit w (unquoted w (hd args)) \<Longrightarrow>
   resolve w args = ([CatFile (unquoted w (hd args))], Inr (hd args, join_args (tl args)))"
  by (simp add: resolve_def)

lemma resolve_default:
  "\<not> explicit_rev args \<Longrightarrow>
   resolve w args =
     (map (\<lambda>r. CatFile [r]) (probed w) @ (if first_resolving w = None then [EchoErr True no_default_msg] else []),
      case first_resolving w of Some r \<Rightarrow> Inr (r, join_args args) | None \<Rightarrow> Inl NoDefault)"
  by (simp add: resolve_def first_resolving_def probed_def default_revs_def)

lemma probes_only: "filter is_diff (map (\<lambda>r. CatFile [r]) rs) = [] \<and> filter is_pytest (map (\<lambda>r. CatFile [r]) rs) = []
   \<and> exported (map (\<lambda>r. CatFile [r]) rs) = [] \<and> filter is_probe (map (\<lambda>r. CatFile [r]) rs) = map (\<lambda>r. CatFile [r]) rs"
  by (induction rs) simp_all

lemma resolve_probes:
  "resolve w args = (probes, res) \<Longrightarrow>
   filter is_diff probes = [] \<and> filter is_pytest probes = [] \<and> exported probes = []"
  by (auto simp: resolve_def split: if_splits)

lemma first_resolving_in: "first_resolving w = Some r \<Longrightarrow> r \<in> set default_revs \<and> is_commit w [r]"
  by (auto simp: first_resolving_def find_Some_iff)

lemma exported_append: "exported (xs @ ys) = exported xs @ exported ys"
  by (induction xs rule: exported.induct) simp_all

lemma exported_seed_events: "exported (seed_events w) = [seed_value w]"
  by (simp add: seed_events_def seed_value_def split: option.split)

lemma seed_events_other: "filter is_diff (seed_events w) = [] \<and> filter is_pytest (seed_events w) = []"
  by (simp add: seed_events_def split: option.split)

lemma count_list_distinct: "distinct xs \<Longrightarrow> count_list xs x = (if x \<in> set xs then 1 else 0)"
  by (induction xs) auto


subsection \<open>The example runs\<close>

lemma resolve_ex_head: "resolve w_ex [''HEAD~1'', ''-v''] = ([CatFile [''HEAD~1'']], Inr (''HEAD~1'', ''-v''))"
  by code_simp




lemma resolve_json: "resolve w_json [] = ([CatFile [''upstream/master''], CatFile [''origin/master''], CatFile [''master'']], Inr (''master'', []))"
  by code_simp

lemma changed_json: "changed w_json ''master'' = [global_test, global_test]"
  by code_simp

lemma resolve_seeded: "resolve w_seeded [''HEAD~1''] = ([CatFile [''HEAD~1'']], Inr (''HEAD~1'', []))"
  by code_simp


lemma plain_v: "plain ''-v'' \<and> plain ''-x'' \<and> plain ''HEAD~1''"
  by (simp add: plain_def ifs_white_def is_pattern_def)

lemma no_pytest_in: "filter is_pytest xs = [] \<Longrightarrow> Pytest a \<notin> set xs"
  by (auto simp: filter_empty_conv)

subsection \<open>The revision\<close>

lemma echo_plain_run:
  "bsl \<notin> set p \<Longrightarrow> echo_e_from w Plain (p @ s) = p @ echo_e_from w Plain s"
  by (induction p) auto

lemma char_of_27: "char_of (27 :: nat) = esc"
  by code_simp

lemma echo_033:
  "echo_e_from w Plain (bsl # CHR ''0'' # CHR ''3'' # CHR ''3'' # CHR ''['' # s)
     = esc # CHR ''['' # echo_e_from w Plain s"
  by (simp add: oct_digit_def bsl_def char_of_27)

lemma echo_reset: "echo_e_from w Plain (bsl # ''033[0m'') = esc # ''[0m'' @ [nl]"
  by (simp add: oct_digit_def bsl_def char_of_27)

lemma echo_no_revision:
  assumes "bsl \<notin> set a"
  shows "echo_e w (no_revision_msg a)
           = esc # ''[31mNo revision '' @ apo # a @ apo # ''.'' @ esc # ''[0m'' @ [nl]"
proof -
  have p: "bsl \<notin> set (''31mNo revision '' @ apo # a @ apo # ''.'')"
    using assms by (simp add: bsl_def apo_def)
  have "echo_e w (no_revision_msg a)
          = echo_e_from w Plain (bsl # CHR ''0'' # CHR ''3'' # CHR ''3'' # CHR ''[''
              # ((''31mNo revision '' @ apo # a @ apo # ''.'') @ bsl # ''033[0m''))"
    by (simp add: echo_e_def no_revision_msg_def red_def)
  also have "\<dots> = esc # CHR ''['' # echo_e_from w Plain
                ((''31mNo revision '' @ apo # a @ apo # ''.'') @ bsl # ''033[0m'')"
    by (rule echo_033)
  also have "echo_e_from w Plain ((''31mNo revision '' @ apo # a @ apo # ''.'') @ bsl # ''033[0m'')
               = (''31mNo revision '' @ apo # a @ apo # ''.'')
                 @ echo_e_from w Plain (bsl # ''033[0m'')"
    using p by (rule echo_plain_run)
  also have "echo_e_from w Plain (bsl # ''033[0m'') = esc # ''[0m'' @ [nl]"
    by (rule echo_reset)
  finally show ?thesis by simp
qed

lemma echo_no_default:
  "echo_e w no_default_msg
     = esc # ''[31mNo default revision found to compare against. Argument #1 must be what to diff against (e.g. ''
       @ apo # ''origin/master'' @ apo # '' or '' @ apo # ''HEAD~1'' @ apo # '').'' @ esc # ''[0m'' @ [nl]"
proof -
  let ?t = "''31mNo default revision found to compare against. Argument #1 must be what to diff against (e.g. ''
       @ apo # ''origin/master'' @ apo # '' or '' @ apo # ''HEAD~1'' @ apo # '').''"
  have p: "bsl \<notin> set ?t" by (simp add: bsl_def apo_def)
  have "echo_e w no_default_msg
          = echo_e_from w Plain (bsl # CHR ''0'' # CHR ''3'' # CHR ''3'' # CHR ''[''
              # (?t @ bsl # ''033[0m''))"
    by (simp add: echo_e_def no_default_msg_def red_def)
  also have "\<dots> = esc # CHR ''['' # echo_e_from w Plain (?t @ bsl # ''033[0m'')"
    by (rule echo_033)
  also have "echo_e_from w Plain (?t @ bsl # ''033[0m'') = ?t @ echo_e_from w Plain (bsl # ''033[0m'')"
    using p by (rule echo_plain_run)
  also have "echo_e_from w Plain (bsl # ''033[0m'') = esc # ''[0m'' @ [nl]"
    by (rule echo_reset)
  finally show ?thesis by simp
qed

lemma mentions_nothing: "mentions s []"
  by (cases s) simp_all

lemma mentions_here: "mentions (a @ s) a"
  by (cases a) (simp_all add: mentions_nothing)

lemma mentions_later: "mentions s a \<Longrightarrow> mentions (p @ s) a"
  by (induction p) simp_all

lemma mentions_inside: "mentions (p @ a @ s) a"
  by (rule mentions_later) (rule mentions_here)

text \<open>
  The two failures of the revision resolution. When the first argument is taken as
  the revision and is no commit, the script exits with status 1 after one
  \<open>echo -e ... >&2\<close>; for a revision without a backslash, standard error then holds
  the red \<open>No revision '...'.\<close> line with the revision in it. When no revision is
  given and none of the three default names is a commit, the script exits with
  status 1 and standard error holds the red line about the missing default.
\<close>

lemma unresolved_revision_report:
  "(explicit_rev args \<and> \<not> is_commit w (unquoted w (hd args)) \<longrightarrow>
      exit_code (main w args) = 1
      \<and> trace (main w args)
          = [CatFile (unquoted w (hd args)), EchoErr True (no_revision_msg (hd args))]
      \<and> (bsl \<notin> set (hd args) \<longrightarrow>
           stderr_of w (trace (main w args))
             = esc # ''[31mNo revision '' @ apo # hd args @ apo # ''.'' @ esc # ''[0m'' @ [nl]
           \<and> mentions (stderr_of w (trace (main w args))) (hd args)))
   \<and> (\<not> explicit_rev args \<and> \<not> is_commit w [''upstream/master'']
        \<and> \<not> is_commit w [''origin/master''] \<and> \<not> is_commit w [''master''] \<longrightarrow>
      exit_code (main w args) = 1
      \<and> stderr_of w (trace (main w args))
          = esc # ''[31mNo default revision found to compare against. Argument #1 must be what to diff against (e.g. ''
            @ apo # ''origin/master'' @ apo # '' or '' @ apo # ''HEAD~1'' @ apo # '').'' @ esc # ''[0m'' @ [nl])"
proof -
  have one: "exit_code (main w args) = 1
      \<and> trace (main w args)
          = [CatFile (unquoted w (hd args)), EchoErr True (no_revision_msg (hd args))]"
    if "explicit_rev args" "\<not> is_commit w (unquoted w (hd args))"
    using that by (simp add: main_def resolve_def)
  have two: "stderr_of w (trace (main w args))
             = esc # ''[31mNo revision '' @ apo # hd args @ apo # ''.'' @ esc # ''[0m'' @ [nl]
           \<and> mentions (stderr_of w (trace (main w args))) (hd args)"
    if e: "explicit_rev args" "\<not> is_commit w (unquoted w (hd args))" and b: "bsl \<notin> set (hd args)"
  proof -
    from one [OF e] have "stderr_of w (trace (main w args)) = echo_e w (no_revision_msg (hd args))"
      by simp
    with echo_no_revision [OF b, of w]
    have s: "stderr_of w (trace (main w args))
            = (esc # ''[31mNo revision '' @ [apo]) @ hd args @ (apo # ''.'' @ esc # ''[0m'' @ [nl])"
      by simp
    have "mentions (stderr_of w (trace (main w args))) (hd args)"
      unfolding s by (rule mentions_inside)
    with s show ?thesis by simp
  qed
  have three: "exit_code (main w args) = 1
      \<and> stderr_of w (trace (main w args)) = echo_e w no_default_msg"
    if "\<not> explicit_rev args" "\<not> is_commit w [''upstream/master'']"
       "\<not> is_commit w [''origin/master'']" "\<not> is_commit w [''master'']"
    using that by (simp add: main_def resolve_def)
  from one two three show ?thesis by (simp only: echo_no_default) blast
qed

text \<open>
  C4. An unresolvable revision is to be reported on standard error by a message that
  mentions it, with exit status 1. At the revision \<open>a\cb\<close>, which names no commit, the
  script does exit with status 1, but \<open>echo -e\<close> reads the \<open>\c\<close> of the revision as the
  end of its output: standard error holds \<open>No revision 'a\<close> behind the colour code and
  nothing more, so the message does not mention the revision.
\<close>

theorem no_revision_message_cut:
  "explicit_rev [cut_rev]
   \<and> \<not> is_commit w_bare (unquoted w_bare cut_rev)
   \<and> exit_code (main w_bare [cut_rev]) = 1
   \<and> trace (main w_bare [cut_rev]) = [CatFile [cut_rev], EchoErr True (no_revision_msg cut_rev)]
   \<and> stderr_of w_bare (trace (main w_bare [cut_rev])) = esc # ''[31mNo revision '' @ apo # ''a''
   \<and> \<not> mentions (stderr_of w_bare (trace (main w_bare [cut_rev]))) cut_rev"
  by code_simp

text \<open>
  C8. When no revision is given, the outcome of the \<open>if\<close> / \<open>elif\<close> chain is that of a
  search through \<open>upstream/master\<close>, \<open>origin/master\<close>, \<open>master\<close> in this order: the
  revision is the first that is a commit, the probes are those up to and including it,
  and both diffs of the run are taken against it.
\<close>

theorem default_revision_probing:
  "\<not> explicit_rev args \<Longrightarrow>
   snd (resolve w args)
     = (case first_resolving w of Some r \<Rightarrow> Inr (r, join_args args) | None \<Rightarrow> Inl NoDefault)
   \<and> filter is_probe (fst (resolve w args)) = map (\<lambda>r. CatFile [r]) (probed w)
   \<and> (first_resolving w = Some r \<longrightarrow>
        filter is_diff (trace (main w args)) = [Diff [r], Diff [r]])"
proof -
  assume n: "\<not> explicit_rev args"
  note d = resolve_default [OF n, of w]
  have a: "snd (resolve w args)
     = (case first_resolving w of Some r \<Rightarrow> Inr (r, join_args args) | None \<Rightarrow> Inl NoDefault)"
    by (simp add: d)
  have b: "filter is_probe (fst (resolve w args)) = map (\<lambda>r. CatFile [r]) (probed w)"
    by (simp add: d probes_only)
  have c: "filter is_diff (trace (main w args)) = [Diff [r], Diff [r]]"
    if f: "first_resolving w = Some r"
  proof -
    from f have "plain r" using first_resolving_in plain_default_revs by blast
    then have u: "unquoted w r = [r]" by (rule unquoted_plain)
    from d f have "resolve w args = (map (\<lambda>r. CatFile [r]) (probed w), Inr (r, join_args args))"
      by simp
    from main_resolved [OF this] show ?thesis
      by (simp add: u probes_only seed_events_other)
  qed
  from a b c show ?thesis by simp
qed

theorem default_revision_probing_witness:
  "\<not> explicit_rev [] \<and> first_resolving w_ex = Some ''origin/master''
   \<and> probed w_ex = [''upstream/master'', ''origin/master'']
   \<and> snd (resolve w_ex []) = Inr (''origin/master'', [])
   \<and> filter is_probe (fst (resolve w_ex []))
       = [CatFile [''upstream/master''], CatFile [''origin/master'']]
   \<and> filter is_diff (trace (main w_ex [])) = [Diff [''origin/master''], Diff [''origin/master'']]"
proof -
  have h: "\<not> explicit_rev []" by (simp add: explicit_rev_def)
  have f: "first_resolving w_ex = Some ''origin/master''" by code_simp
  have p: "probed w_ex = [''upstream/master'', ''origin/master'']" by code_simp
  from default_revision_probing [OF h, of w_ex "''origin/master''"] h f p
  show ?thesis by simp
qed




subsection \<open>The changed files\<close>

text \<open>
  C7, as stated, fails: a run against \<open>HEAD~1\<close> calls \<open>git diff --name-only\<close> twice.
\<close>

theorem single_diff_counterexample:
  "filter is_diff (trace (main w_ex [''HEAD~1'', ''-v''])) = [Diff [''HEAD~1''], Diff [''HEAD~1'']]
   \<and> length (filter is_diff (trace (main w_ex [''HEAD~1'', ''-v'']))) = 2"
  by code_simp

text \<open>
  C7, amended. A run that has resolved its revision calls \<open>git diff --name-only\<close>
  exactly twice, first with \<open>${rev}\<close> unquoted and then with \<open>"${rev}"\<close>; the test files
  are derived from the output of the first call and the initializer check reads the
  output of the second. For a plain revision both calls have the same argument.
\<close>

theorem two_diffs_per_run:
  "resolve w args = (probes, Inr (rv, rest)) \<Longrightarrow>
   filter is_diff (trace (main w args)) = [Diff (unquoted w rv), Diff [rv]]
   \<and> changed w rv = derive w (diff_names w (unquoted w rv))
                     @ (if init_touched (diff_names w [rv]) then [global_test] else [])
   \<and> (plain rv \<longrightarrow> unquoted w rv = [rv])"
proof -
  assume r: "resolve w args = (probes, Inr (rv, rest))"
  then have "filter is_diff probes = []" by (simp add: resolve_probes)
  then have "filter is_diff (trace (main w args)) = [Diff (unquoted w rv), Diff [rv]]"
    by (simp add: main_resolved [OF r] seed_events_other)
  then show ?thesis by (simp add: changed_def unquoted_plain)
qed

theorem two_diffs_per_run_witness:
  "resolve w_ex [''HEAD~1'', ''-v''] = ([CatFile [''HEAD~1'']], Inr (''HEAD~1'', ''-v''))
   \<and> plain ''HEAD~1''
   \<and> unquoted w_ex ''HEAD~1'' = [''HEAD~1'']
   \<and> filter is_diff (trace (main w_ex [''HEAD~1'', ''-v''])) = [Diff [''HEAD~1''], Diff [''HEAD~1'']]"
  using two_diffs_per_run [OF resolve_ex_head] plain_v
  by (simp add: resolve_ex_head)

text \<open>
  C2, as stated, fails: when an initializer and \<open>json_serialization.py\<close> have both
  changed and the serialization test exists, the array holds the fixed path twice, and
  so does the command line of \<open>pytest\<close>.
\<close>

theorem global_test_twice_counterexample:
  "init_touched (diff_names w_json [''master''])
   \<and> changed w_json ''master'' = [global_test, global_test]
   \<and> count_list (changed w_json ''master'') global_test = 2
   \<and> last (trace (main w_json [])) = Pytest [global_test, global_test]"
proof -
  have "init_touched (diff_names w_json [''master''])" by code_simp
  moreover have "unquoted w_json [] = []" by (simp add: unquoted_def split_words_def)
  ultimately show ?thesis
    using main_resolved [OF resolve_json] by (simp add: changed_json)
qed

text \<open>
  C2, amended. When a line of the diff ends in \<open>__init__.py\<close>, the fixed path is
  appended once to the derived test files, however many such lines there are; it then
  occurs exactly once in the array provided the derived test files do not hold it
  already.
\<close>

theorem global_test_appended_once:
  "init_touched (diff_names w [rv]) \<Longrightarrow>
   changed w rv = derive w (diff_names w (unquoted w rv)) @ [global_test]
   \<and> (global_test \<notin> set (derive w (diff_names w (unquoted w rv))) \<longrightarrow>
        count_list (changed w rv) global_test = 1)"
  by (simp add: changed_def count_list_distinct derive_distinct)

theorem global_test_appended_once_witness:
  "init_touched (diff_names w_ex [''HEAD~1''])
   \<and> global_test \<notin> set (derive w_ex (diff_names w_ex (unquoted w_ex ''HEAD~1'')))
   \<and> changed w_ex ''HEAD~1'' = [''pkg/module_test.py'', global_test]
   \<and> count_list (changed w_ex ''HEAD~1'') global_test = 1"
proof -
  have h: "init_touched (diff_names w_ex [''HEAD~1''])" by code_simp
  have d: "derive w_ex (diff_names w_ex (unquoted w_ex ''HEAD~1'')) = [''pkg/module_test.py'']"
    by code_simp
  have g: "global_test \<noteq> ''pkg/module_test.py''" by (simp add: global_test_def)
  from global_test_appended_once [OF h] h g show ?thesis
    by (simp add: d)
qed

text \<open>
  C10. When a line of the diff ends in \<open>__init__.py\<close>, the fixed path is appended
  behind the sorted derived test files. Each derived file has passed the existence
  test; the fixed path is not tested, and it is the last argument of \<open>pytest\<close> whether
  it exists or not.
\<close>

theorem global_test_unchecked_last:
  "init_touched (diff_names w [rv]) \<Longrightarrow>
   changed w rv = derive w (diff_names w (unquoted w rv)) @ [global_test]
   \<and> (\<forall>t\<in>set (derive w (diff_names w (unquoted w rv))). file_exists w t)
   \<and> (resolve w args = (probes, Inr (rv, rest)) \<longrightarrow>
        last (trace (main w args))
          = Pytest (unquoted w rest @ derive w (diff_names w (unquoted w rv)) @ [global_test]))"
proof -
  assume i: "init_touched (diff_names w [rv])"
  then have c: "changed w rv = derive w (diff_names w (unquoted w rv)) @ [global_test]"
    by (simp add: changed_def)
  have e: "\<forall>t\<in>set (derive w (diff_names w (unquoted w rv))). file_exists w t"
    by (auto simp: derive_set)
  have "last (trace (main w args))
          = Pytest (unquoted w rest @ derive w (diff_names w (unquoted w rv)) @ [global_test])"
    if r: "resolve w args = (probes, Inr (rv, rest))"
    using main_resolved [OF r] c by simp
  with c e show ?thesis by simp
qed

theorem global_test_unchecked_last_witness:
  "init_touched (diff_names w_ex [''HEAD~1''])
   \<and> resolve w_ex [''HEAD~1'', ''-v''] = ([CatFile [''HEAD~1'']], Inr (''HEAD~1'', ''-v''))
   \<and> \<not> file_exists w_ex global_test
   \<and> file_exists w_ex ''pkg/module_test.py''
   \<and> last (trace (main w_ex [''HEAD~1'', ''-v'']))
       = Pytest [''-v'', ''pkg/module_test.py'', global_test]"
proof -
  have h: "init_touched (diff_names w_ex [''HEAD~1''])" by code_simp
  have n: "\<not> file_exists w_ex global_test" "file_exists w_ex ''pkg/module_test.py''"
    by (simp_all add: w_ex_def global_test_def)
  have u: "unquoted w_ex ''-v'' = [''-v'']" by (rule unquoted_plain) (simp add: plain_v)
  have d: "derive w_ex (diff_names w_ex (unquoted w_ex ''HEAD~1'')) = [''pkg/module_test.py'']"
    by code_simp
  from global_test_unchecked_last [OF h, of "[''HEAD~1'', ''-v'']" "[CatFile [''HEAD~1'']]" "''-v''"]
    h n resolve_ex_head u d
  show ?thesis by simp
qed

subsection \<open>The run of the tests\<close>




text \<open>
  C6. A run exports the seed at most once, and does so whenever it calls \<open>pytest\<close>.
  The exported value is the one found in the environment when the variable is set
  (\<open>git log\<close> is then not called) and the time stamp of the latest commit otherwise.
  Hence two runs without the variable and with the same time stamp export the same
  value.
\<close>

theorem seed_read_or_computed:
  "(exported (trace (main w args)) = [] \<or> exported (trace (main w args)) = [seed_value w])
   \<and> (filter is_pytest (trace (main w args)) \<noteq> [] \<longrightarrow>
        exported (trace (main w args)) = [seed_value w])
   \<and> (seed_var w = Some v \<longrightarrow> seed_value w = v \<and> GitLog \<notin> set (trace (main w args)))
   \<and> (seed_var w = None \<longrightarrow> seed_value w = log_ct w)
   \<and> (seed_var w = None \<and> seed_var w' = None \<and> log_ct w = log_ct w'
        \<and> s \<in> set (exported (trace (main w args)))
        \<and> s' \<in> set (exported (trace (main w' args'))) \<longrightarrow> s = s')"
proof -
  have ex: "exported (trace (main u as)) = [] \<or> exported (trace (main u as)) = [seed_value u]"
    and py: "filter is_pytest (trace (main u as)) \<noteq> [] \<longrightarrow>
             exported (trace (main u as)) = [seed_value u]"
    and gl: "seed_var u = Some v \<longrightarrow> GitLog \<notin> set (trace (main u as))" for u as
  proof -
    obtain probes res where r: "resolve u as = (probes, res)" by (cases "resolve u as")
    then have p: "exported probes = []" "filter is_pytest probes = []"
      by (simp_all add: resolve_probes)
    from r have g: "GitLog \<notin> set probes" by (auto simp: resolve_def split: if_splits)
    show "exported (trace (main u as)) = [] \<or> exported (trace (main u as)) = [seed_value u]"
    proof (cases res)
      case (Inl f)
      with r p show ?thesis by (simp add: main_failed)
    next
      case (Inr b)
      then obtain rv rest where "res = Inr (rv, rest)" by (cases b) simp
      with r p show ?thesis
        by (simp add: main_resolved exported_append exported_seed_events)
    qed
    show "filter is_pytest (trace (main u as)) \<noteq> [] \<longrightarrow>
          exported (trace (main u as)) = [seed_value u]"
    proof (cases res)
      case (Inl f)
      with r p show ?thesis by (simp add: main_failed)
    next
      case (Inr b)
      then obtain rv rest where "res = Inr (rv, rest)" by (cases b) simp
      with r p show ?thesis
        by (simp add: main_resolved exported_append exported_seed_events)
    qed
    show "seed_var u = Some v \<longrightarrow> GitLog \<notin> set (trace (main u as))"
    proof (cases res)
      case (Inl f)
      with r g show ?thesis by (simp add: main_failed)
    next
      case (Inr b)
      then obtain rv rest where "res = Inr (rv, rest)" by (cases b) simp
      with r g show ?thesis
        by (auto simp: main_resolved seed_events_def)
    qed
  qed
  have same: "s = s'"
    if "seed_var w = None" "seed_var w' = None" "log_ct w = log_ct w'"
      "s \<in> set (exported (trace (main w args)))" "s' \<in> set (exported (trace (main w' args')))"
  proof -
    from that(4) ex [of w args] have "s = seed_value w" by auto
    moreover from that(5) ex [of w' args'] have "s' = seed_value w'" by auto
    ultimately show ?thesis using that(1-3) by (simp add: seed_value_def)
  qed
  from ex py gl same show ?thesis by (auto simp: seed_value_def)
qed

theorem seed_read_or_computed_witness:
  "seed_var w_ex = None \<and> seed_var w_json = None \<and> log_ct w_ex = log_ct w_json
   \<and> exported (trace (main w_ex [''HEAD~1'', ''-v''])) = [''1700000000'']
   \<and> exported (trace (main w_json [])) = [''1700000000'']
   \<and> seed_var w_seeded = Some ''42''
   \<and> filter is_pytest (trace (main w_seeded [''HEAD~1''])) \<noteq> []
   \<and> exported (trace (main w_seeded [''HEAD~1''])) = [''42'']
   \<and> GitLog \<notin> set (trace (main w_seeded [''HEAD~1'']))"
proof -
  have v: "seed_var w_ex = None" "seed_var w_json = None" "log_ct w_ex = ''1700000000''"
    "log_ct w_json = ''1700000000''" "seed_var w_seeded = Some ''42''"
    by (simp_all add: w_ex_def w_json_def w_seeded_def)
  have p1: "filter is_pytest (trace (main w_ex [''HEAD~1'', ''-v''])) \<noteq> []" by code_simp
  have p2: "filter is_pytest (trace (main w_json [])) \<noteq> []" by code_simp
  have p3: "filter is_pytest (trace (main w_seeded [''HEAD~1''])) \<noteq> []" by code_simp
  from seed_read_or_computed [where w = w_ex and args = "[''HEAD~1'', ''-v'']" and w' = w_json
      and args' = "[]" and s = "''1700000000''" and s' = "''1700000000''" and v = "''42''"]
    seed_read_or_computed [where w = w_json and args = "[]" and w' = w_ex
      and args' = "[''HEAD~1'', ''-v'']" and s = "''1700000000''" and s' = "''1700000000''"
      and v = "''42''"]
    seed_read_or_computed [where w = w_seeded and args = "[''HEAD~1'']" and w' = w_ex
      and args' = "[]" and s = "''42''" and s' = "''42''" and v = "''42''"]
    v p1 p2 p3
  show ?thesis by simp
qed

end
